theory Spec2Isabelle
  imports Main "HOL-Library.Char_ord" "HOL-Library.List_Lexorder"
begin

section \<open>Data model\<close>

text \<open>
  The program (\<^verbatim>\<open>debindex.py\<close>) reads a gzip-compressed index, turns it into a pandas
  DataFrame with the columns \<^verbatim>\<open>filename\<close> and \<^verbatim>\<open>package\<close>, counts the rows per package and
  prints or saves the ranking.

  Strings are byte strings in UTF-8 (\<^typ>\<open>string\<close>); their order is the lexicographic order
  of the bytes, which for UTF-8 is the order of the code points that Python compares.
  A cell of an object column is a string or null (\<open>NaN\<close>/\<open>None\<close>): \<^typ>\<open>string option\<close>.
  A DataFrame is its list of named columns.  A Series of counts is a list of
  (label, value) pairs in index order; a value is null where a label had no entry.
\<close>

type_synonym cell = "string option"
type_synonym dataframe = "(string \<times> cell list) list"
type_synonym series = "(string \<times> nat option) list"

datatype error =
    InvalidURL | BadGzipFile | KeyboardInterrupt
  | EOFError | ZlibError | UnicodeDecodeError | ParserError
  | AttributeError | ValueError | KeyError
  | FileNotFoundError | OSError | RequestException

section \<open>Python strings\<close>

text \<open>
  Python's whitespace (\<^verbatim>\<open>str.isspace\<close>, the class \<^verbatim>\<open>\s\<close> of \<^verbatim>\<open>re\<close>, what \<^verbatim>\<open>str.strip\<close>
  removes) is the code points 09-0D, 1C-1F, 20, 85, A0, 1680, 2000-200A, 2028, 2029,
  202F, 205F and 3000.  \<open>space_len s\<close> is the number of bytes that the whitespace code
  point at the head of \<open>s\<close> takes in UTF-8, and 0 when \<open>s\<close> does not start with one.
\<close>

definition ascii_space :: "char \<Rightarrow> bool" where
  "ascii_space c = (c \<in> set [CHR 0x09, CHR 0x0A, CHR 0x0B, CHR 0x0C, CHR 0x0D,
                              CHR 0x1C, CHR 0x1D, CHR 0x1E, CHR 0x1F, CHR 0x20])"

definition wide_space :: "char \<Rightarrow> char \<Rightarrow> char \<Rightarrow> bool" where
  "wide_space a b c =
     (if a = CHR 0xE1 then b = CHR 0x9A \<and> c = CHR 0x80
      else if a = CHR 0xE2 then
        (b = CHR 0x80 \<and> c \<in> set [CHR 0x80, CHR 0x81, CHR 0x82, CHR 0x83, CHR 0x84, CHR 0x85,
            CHR 0x86, CHR 0x87, CHR 0x88, CHR 0x89, CHR 0x8A, CHR 0xA8, CHR 0xA9, CHR 0xAF])
        \<or> (b = CHR 0x81 \<and> c = CHR 0x9F)
      else a = CHR 0xE3 \<and> b = CHR 0x80 \<and> c = CHR 0x80)"

fun space_len :: "string \<Rightarrow> nat" where
  "space_len [] = 0"
| "space_len [a] = (if ascii_space a then 1 else 0)"
| "space_len [a, b] =
     (if ascii_space a then 1
      else if a = CHR 0xC2 \<and> (b = CHR 0x85 \<or> b = CHR 0xA0) then 2 else 0)"
| "space_len (a # b # c # s) =
     (if ascii_space a then 1
      else if a = CHR 0xC2 \<and> (b = CHR 0x85 \<or> b = CHR 0xA0) then 2
      else if wide_space a b c then 3 else 0)"

text \<open>
  \<open>eat k s\<close> drops \<open>k\<close> bytes and then every whitespace code point that follows:
  \<open>eat 0\<close> is \<^verbatim>\<open>lstrip()\<close>.
\<close>

fun eat :: "nat \<Rightarrow> string \<Rightarrow> string" where
  "eat k [] = []"
| "eat (Suc k) (c # s) = eat k s"
| "eat 0 (c # s) = (if 0 < space_len (c # s) then eat (space_len (c # s) - 1) s else c # s)"

fun rstrip :: "string \<Rightarrow> string" where
  "rstrip [] = []"
| "rstrip (c # s) = (if eat 0 (c # s) = [] then [] else c # rstrip s)"

definition strip :: "string \<Rightarrow> string" where
  "strip s = rstrip (eat 0 s)"

definition rstrip_char :: "char \<Rightarrow> string \<Rightarrow> string" where
  "rstrip_char c s = rev (dropWhile (\<lambda>x. x = c) (rev s))"

text \<open>
  \<^verbatim>\<open>re.split('\s+', s, maxsplit=1)\<close>: the text before the first run of whitespace and
  the text after that run; the string itself when it has no whitespace.
\<close>

fun re_split1 :: "string \<Rightarrow> string list" where
  "re_split1 [] = [[]]"
| "re_split1 (c # s) =
     (if 0 < space_len (c # s) then [[], eat 0 (c # s)]
      else (case re_split1 s of
              p # ps \<Rightarrow> (c # p) # ps
            | [] \<Rightarrow> [[c]]))"

text \<open>\<^verbatim>\<open>s.split(c)\<close>, \<^verbatim>\<open>sep.join(parts)\<close> and \<^verbatim>\<open>list.insert(i, x)\<close>.\<close>

fun split_on :: "char \<Rightarrow> string \<Rightarrow> string list" where
  "split_on c [] = [[]]"
| "split_on c (x # s) =
     (if x = c then [] # split_on c s
      else (case split_on c s of
              p # ps \<Rightarrow> (x # p) # ps
            | [] \<Rightarrow> [[x]]))"

fun join :: "string \<Rightarrow> string list \<Rightarrow> string" where
  "join sep [] = []"
| "join sep [p] = p"
| "join sep (p # q # ps) = p @ sep @ join sep (q # ps)"

definition list_insert :: "int \<Rightarrow> 'a \<Rightarrow> 'a list \<Rightarrow> 'a list" where
  "list_insert i x xs =
     (let n = int (length xs);
          j = (if i < 0 then max 0 (i + n) else min i n)
      in take (nat j) xs @ [x] @ drop (nat j) xs)"

definition quoted :: "string \<Rightarrow> string" where
  "quoted s = [CHR 0x22] @ s @ [CHR 0x22]"

text \<open>\<^verbatim>\<open>str(n)\<close> of an integer, and zero padding as \<^verbatim>\<open>strftime\<close> does it.\<close>

definition digit :: "nat \<Rightarrow> char" where
  "digit d = char_of (48 + d)"

fun decimal :: "nat \<Rightarrow> string" where
  "decimal n = (if n < 10 then [digit n] else decimal (n div 10) @ [digit (n mod 10)])"

declare decimal.simps [simp del]

definition str_int :: "int \<Rightarrow> string" where
  "str_int i = (if i < 0 then CHR ''-'' # decimal (nat (- i)) else decimal (nat i))"

definition zfill :: "nat \<Rightarrow> string \<Rightarrow> string" where
  "zfill w s = replicate (w - length s) (CHR ''0'') @ s"

record datetime =
  year :: nat
  month :: nat
  day :: nat
  hour :: nat
  minute :: nat
  second :: nat

text \<open>\<^verbatim>\<open>strftime("%Y%m%d-%H%M%S")\<close>, for the years of four digits that a clock gives.\<close>

definition strftime :: "datetime \<Rightarrow> string" where
  "strftime t =
     zfill 4 (decimal (year t)) @ zfill 2 (decimal (month t)) @ zfill 2 (decimal (day t))
     @ ''-'' @ zfill 2 (decimal (hour t)) @ zfill 2 (decimal (minute t))
     @ zfill 2 (decimal (second t))"

section \<open>The environment and effects\<close>

text \<open>
  What the program reaches outside itself is a record: the answer of the network to a
  GET of a URL (the body, or the exception that \<^verbatim>\<open>requests.get\<close> raises), the files,
  which names can be written, the clock, the platform's line separator, and zlib (the
  raw-deflate decoder and the CRC-32 of the decoded bytes).  The record also holds the
  logger's level and everything the run has printed or logged so far.

  \<open>inflate bs\<close> answers \<open>Inflated out n\<close> when a deflate stream ends after \<open>n\<close> bytes of
  \<open>bs\<close> and decodes to \<open>out\<close>, \<open>NeedMore\<close> when \<open>bs\<close> ends before the stream does, and
  \<open>BadData\<close> when \<open>bs\<close> is no deflate stream.

  A \<open>Log\<close> event is a call of the logger at that level; the handler emits the record
  when the level is not below the logger's level (\<open>emitted\<close>).  An interrupt from the
  keyboard is an exception like the others, raised by an operation of the environment.
\<close>

datatype inflate_result = Inflated string nat | NeedMore | BadData

datatype loglevel = INFO | WARNING | ERROR | CRITICAL

datatype event = Print string | PrintSeries series | Log loglevel string

record world =
  http :: "string \<Rightarrow> error + string"
  files :: "string \<Rightarrow> string option"
  writable :: "string \<Rightarrow> bool"
  clock :: datetime
  linesep :: string
  inflate :: "string \<Rightarrow> inflate_result"
  crc32 :: "string \<Rightarrow> nat"
  level :: loglevel
  trace :: "event list"

type_synonym 'a io = "world \<Rightarrow> (error + 'a) \<times> world"

definition return :: "'a \<Rightarrow> 'a io" where
  "return x w = (Inr x, w)"

definition raise :: "error \<Rightarrow> 'a io" where
  "raise e w = (Inl e, w)"

definition bind :: "'a io \<Rightarrow> ('a \<Rightarrow> 'b io) \<Rightarrow> 'b io" where
  "bind m f w = (case m w of (Inl e, w') \<Rightarrow> (Inl e, w') | (Inr x, w') \<Rightarrow> f x w')"

definition lift :: "error + 'a \<Rightarrow> 'a io" where
  "lift r w = (r, w)"

definition emit :: "event \<Rightarrow> unit io" where
  "emit ev w = (Inr (), w\<lparr>trace := trace w @ [ev]\<rparr>)"

definition print :: "string \<Rightarrow> unit io" where
  "print s = emit (Print s)"

definition log :: "loglevel \<Rightarrow> string \<Rightarrow> unit io" where
  "log l msg = emit (Log l msg)"

fun severity :: "loglevel \<Rightarrow> nat" where
  "severity INFO = 20"
| "severity WARNING = 30"
| "severity ERROR = 40"
| "severity CRITICAL = 50"

fun emitted :: "loglevel \<Rightarrow> event \<Rightarrow> bool" where
  "emitted threshold (Log l msg) = (severity threshold \<le> severity l)"
| "emitted threshold ev = True"

definition console :: "world \<Rightarrow> event list" where
  "console w = filter (emitted (level w)) (trace w)"

definition requests_get :: "string \<Rightarrow> string io" where
  "requests_get url w = (http w url, w)"

text \<open>\<^verbatim>\<open>open(name, 'wb').write(content)\<close>: the file is created or replaced.\<close>

definition write_file :: "string \<Rightarrow> string \<Rightarrow> unit io" where
  "write_file name content w =
     (if writable w name then (Inr (), w\<lparr>files := (files w)(name \<mapsto> content)\<rparr>)
      else (Inl OSError, w))"

section \<open>Decode and parse: \<^verbatim>\<open>_read_csv\<close>\<close>

subsection \<open>gzip\<close>

text \<open>
  \<^verbatim>\<open>pd.read_csv(data, compression='gzip', ...)\<close> reads \<open>data\<close> through Python's
  \<^verbatim>\<open>gzip.GzipFile\<close>.  Its reader takes the stream member by member.  At the start of a
  member: no byte left ends the stream; two bytes other than 1F 8B raise \<^verbatim>\<open>BadGzipFile\<close>;
  fewer than eight further bytes raise \<^verbatim>\<open>EOFError\<close>; a method other than 8 raises
  \<^verbatim>\<open>BadGzipFile\<close>; then the optional fields that the flag byte announces are skipped.
  The deflate stream follows; when the input ends inside it the reader raises
  \<^verbatim>\<open>EOFError\<close>.  The trailer holds the CRC-32 and the length modulo \<open>2^32\<close> of the decoded
  bytes; a mismatch raises \<^verbatim>\<open>BadGzipFile\<close>.  Zero bytes after a member are skipped.
  The embedding decodes the whole stream before the text is parsed.
\<close>

fun skip_cstring :: "string \<Rightarrow> string" where
  "skip_cstring [] = []"
| "skip_cstring (c # s) = (if c = CHR 0x00 then s else skip_cstring s)"

definition skip_extra :: "nat \<Rightarrow> string \<Rightarrow> error + string" where
  "skip_extra flag r =
     (if flag div 4 mod 2 = 1 then
        (if length r < 2 then Inl EOFError
         else let n = of_char (r ! 0) + 256 * of_char (r ! 1);
                  r' = drop 2 r
              in if length r' < n then Inl EOFError else Inr (drop n r'))
      else Inr r)"

definition read_gzip_header :: "string \<Rightarrow> error + string option" where
  "read_gzip_header bs =
     (if bs = [] then Inr None
      else if take 2 bs \<noteq> [CHR 0x1F, CHR 0x8B] then Inl BadGzipFile
      else if length bs < 10 then Inl EOFError
      else if bs ! 2 \<noteq> CHR 0x08 then Inl BadGzipFile
      else
        (let flag = of_char (bs ! 3) :: nat
         in case skip_extra flag (drop 10 bs) of
              Inl e \<Rightarrow> Inl e
            | Inr r1 \<Rightarrow>
                (let r2 = (if flag div 8 mod 2 = 1 then skip_cstring r1 else r1);
                     r3 = (if flag div 16 mod 2 = 1 then skip_cstring r2 else r2)
                 in if flag div 2 mod 2 = 1
                    then (if length r3 < 2 then Inl EOFError else Inr (Some (drop 2 r3)))
                    else Inr (Some r3))))"

definition le32 :: "string \<Rightarrow> nat" where
  "le32 b = of_char (b ! 0) + 256 * of_char (b ! 1) + 65536 * of_char (b ! 2)
            + 16777216 * of_char (b ! 3)"

text \<open>
  \<open>read_eof\<close> checks the trailer of a member against the decoded bytes and answers the
  input that follows the member.
\<close>

definition read_eof :: "world \<Rightarrow> string \<Rightarrow> string \<Rightarrow> error + string" where
  "read_eof w out r =
     (if length r < 8 then Inl EOFError
      else if le32 (take 4 r) \<noteq> crc32 w out then Inl BadGzipFile
      else if le32 (take 4 (drop 4 r)) \<noteq> length out mod 2 ^ 32 then Inl BadGzipFile
      else Inr (dropWhile (\<lambda>c. c = CHR 0x00) (drop 8 r)))"

definition read_member :: "world \<Rightarrow> string \<Rightarrow> error + (string \<times> string) option" where
  "read_member w bs =
     (case read_gzip_header bs of
        Inl e \<Rightarrow> Inl e
      | Inr None \<Rightarrow> Inr None
      | Inr (Some body) \<Rightarrow>
          (case inflate w body of
             NeedMore \<Rightarrow> Inl EOFError
           | BadData \<Rightarrow> Inl ZlibError
           | Inflated out n \<Rightarrow>
               (case read_eof w out (drop n body) of
                  Inl e \<Rightarrow> Inl e
                | Inr rest \<Rightarrow> Inr (Some (out, rest)))))"

function gzip_read :: "world \<Rightarrow> string \<Rightarrow> error + string" where
  "gzip_read w bs =
     (case read_member w bs of
        Inl e \<Rightarrow> Inl e
      | Inr None \<Rightarrow> Inr []
      | Inr (Some (out, rest)) \<Rightarrow>
          (case gzip_read w rest of
             Inl e \<Rightarrow> Inl e
           | Inr others \<Rightarrow> Inr (out @ others)))"
  by pat_completeness auto

lemma length_skip_cstring: "length (skip_cstring s) \<le> length s"
  by (induction s) auto

lemma skip_extra_shorter: "skip_extra flag r = Inr r' \<Longrightarrow> length r' \<le> length r"
  by (auto simp: skip_extra_def Let_def split: if_splits)

lemma read_gzip_header_shorter:
  assumes "read_gzip_header bs = Inr (Some body)"
  shows "length body < length bs"
proof -
  from assms obtain r1 where r1: "skip_extra (of_char (bs ! 3)) (drop 10 bs) = Inr r1"
    and long: "10 \<le> length bs"
    by (auto simp: read_gzip_header_def Let_def split: if_splits sum.splits)
  have "length r1 \<le> length bs - 10"
    using skip_extra_shorter [OF r1] by simp
  moreover have "length body \<le> length r1"
    using assms r1 length_skip_cstring [of r1] length_skip_cstring [of "skip_cstring r1"]
    by (auto simp: read_gzip_header_def Let_def split: if_splits intro: order_trans)
  ultimately show ?thesis using long by linarith
qed

lemma read_member_shorter:
  assumes "read_member w bs = Inr (Some (out, rest))"
  shows "length rest < length bs"
proof -
  from assms obtain body n where h: "read_gzip_header bs = Inr (Some body)"
    and e: "read_eof w out (drop n body) = Inr rest"
    by (auto simp: read_member_def
        split: sum.splits option.splits inflate_result.splits)
  have "length rest \<le> length (dropWhile (\<lambda>c. c = CHR 0x00) (drop 8 (drop n body)))"
    using e by (auto simp: read_eof_def split: if_splits)
  also have "\<dots> \<le> length (drop 8 (drop n body))"
    by (rule length_dropWhile_le)
  also have "\<dots> \<le> length body" by simp
  finally show ?thesis using read_gzip_header_shorter [OF h] by linarith
qed

termination gzip_read
  by (relation "measure (\<lambda>(w, bs). length bs)") (auto dest: read_member_shorter)

declare gzip_read.simps [simp del]

datatype data = Path string | BytesIO string

definition open_gzip :: "data \<Rightarrow> string io" where
  "open_gzip d w =
     (case d of
        BytesIO bs \<Rightarrow> (gzip_read w bs, w)
      | Path name \<Rightarrow>
          (case files w name of
             None \<Rightarrow> (Inl FileNotFoundError, w)
           | Some bs \<Rightarrow> (gzip_read w bs, w)))"

subsection \<open>The text reader of \<^verbatim>\<open>pd.read_csv\<close>\<close>

text \<open>
  The decoded bytes are read as UTF-8 text (a byte sequence that is no UTF-8 raises
  \<^verbatim>\<open>UnicodeDecodeError\<close>) and tokenized as comma-separated values with the reader's
  defaults: fields are separated by commas; a field that starts with a double quote
  runs to the closing quote, two quotes inside standing for one; a record ends at LF, CR
  or CR LF; a line that is empty or holds only blanks and tabs is skipped; a byte order
  mark at the start is skipped.  The states and their names are those of pandas'
  tokenizer.  While a line that began with blanks is undecided, \<open>tk_field\<close> keeps the
  blanks read so far.  pandas tokenizes buffer by buffer; the embedding describes the
  tokenizer on the whole text.
\<close>

definition cont :: "char \<Rightarrow> bool" where
  "cont c = (0x80 \<le> (of_char c :: nat) \<and> (of_char c :: nat) \<le> 0xBF)"

definition second_ok :: "nat \<Rightarrow> char \<Rightarrow> bool" where
  "second_ok n b =
     (cont b
      \<and> (if n = 0xE0 then 0xA0 \<le> (of_char b :: nat)
         else if n = 0xED then (of_char b :: nat) \<le> 0x9F
         else if n = 0xF0 then 0x90 \<le> (of_char b :: nat)
         else if n = 0xF4 then (of_char b :: nat) \<le> 0x8F
         else True))"

fun valid_utf8 :: "string \<Rightarrow> bool" where
  "valid_utf8 [] = True"
| "valid_utf8 (a # s) =
     (let n = of_char a :: nat
      in if n < 0x80 then valid_utf8 s
         else if 0xC2 \<le> n \<and> n \<le> 0xDF then
           (case s of b # s' \<Rightarrow> cont b \<and> valid_utf8 s' | _ \<Rightarrow> False)
         else if 0xE0 \<le> n \<and> n \<le> 0xEF then
           (case s of
              b # c # s' \<Rightarrow> second_ok n b \<and> cont c \<and> valid_utf8 s'
            | _ \<Rightarrow> False)
         else if 0xF0 \<le> n \<and> n \<le> 0xF4 then
           (case s of
              b # c # d # s' \<Rightarrow> second_ok n b \<and> cont c \<and> cont d \<and> valid_utf8 s'
            | _ \<Rightarrow> False)
         else False)"

datatype tstate =
    START_RECORD | START_FIELD | IN_FIELD | IN_QUOTED_FIELD | QUOTE_IN_QUOTED_FIELD
  | EAT_CRNL | EAT_CRNL_NOP | WHITESPACE_LINE

record tokenizer =
  tk_state :: tstate
  tk_field :: string
  tk_line :: "string list"
  tk_rows :: "string list list"

definition push :: "char \<Rightarrow> tokenizer \<Rightarrow> tokenizer" where
  "push c t = t\<lparr>tk_field := tk_field t @ [c]\<rparr>"

definition end_field :: "tokenizer \<Rightarrow> tokenizer" where
  "end_field t = t\<lparr>tk_line := tk_line t @ [tk_field t], tk_field := []\<rparr>"

definition end_line :: "tokenizer \<Rightarrow> tokenizer" where
  "end_line t = t\<lparr>tk_rows := tk_rows t @ [tk_line t], tk_line := []\<rparr>"

definition goto :: "tstate \<Rightarrow> tokenizer \<Rightarrow> tokenizer" where
  "goto s t = t\<lparr>tk_state := s\<rparr>"

definition start_field :: "char \<Rightarrow> tokenizer \<Rightarrow> tokenizer" where
  "start_field c t =
     (if c = CHR 0x0A then goto START_RECORD (end_line (end_field t))
      else if c = CHR 0x0D then goto EAT_CRNL (end_field t)
      else if c = CHR 0x22 then goto IN_QUOTED_FIELD t
      else if c = CHR '','' then goto START_FIELD (end_field t)
      else goto IN_FIELD (push c t))"

definition start_record :: "char \<Rightarrow> tokenizer \<Rightarrow> tokenizer" where
  "start_record c t =
     (if c = CHR 0x0A then goto START_RECORD t
      else if c = CHR 0x0D then goto EAT_CRNL_NOP t
      else if c = CHR '' '' \<or> c = CHR 0x09 then goto WHITESPACE_LINE (push c t)
      else start_field c t)"

definition in_field :: "char \<Rightarrow> tokenizer \<Rightarrow> tokenizer" where
  "in_field c t =
     (if c = CHR 0x0A then goto START_RECORD (end_line (end_field t))
      else if c = CHR 0x0D then goto EAT_CRNL (end_field t)
      else if c = CHR '','' then goto START_FIELD (end_field t)
      else goto IN_FIELD (push c t))"

definition in_quoted_field :: "char \<Rightarrow> tokenizer \<Rightarrow> tokenizer" where
  "in_quoted_field c t =
     (if c = CHR 0x22 then goto QUOTE_IN_QUOTED_FIELD t else push c t)"

definition quote_in_quoted_field :: "char \<Rightarrow> tokenizer \<Rightarrow> tokenizer" where
  "quote_in_quoted_field c t =
     (if c = CHR 0x0A then goto START_RECORD (end_line (end_field t))
      else if c = CHR 0x0D then goto EAT_CRNL (end_field t)
      else if c = CHR 0x22 then goto IN_QUOTED_FIELD (push c t)
      else if c = CHR '','' then goto START_FIELD (end_field t)
      else goto IN_FIELD (push c t))"

definition eat_crnl :: "char \<Rightarrow> tokenizer \<Rightarrow> tokenizer" where
  "eat_crnl c t =
     (if c = CHR 0x0A then goto START_RECORD (end_line t)
      else start_record c (goto START_RECORD (end_line t)))"

definition eat_crnl_nop :: "char \<Rightarrow> tokenizer \<Rightarrow> tokenizer" where
  "eat_crnl_nop c t =
     (if c = CHR 0x0A \<or> c = CHR '','' then goto START_RECORD t
      else start_record c (goto START_RECORD t))"

definition whitespace_line :: "char \<Rightarrow> tokenizer \<Rightarrow> tokenizer" where
  "whitespace_line c t =
     (if c = CHR 0x0A then goto START_RECORD (t\<lparr>tk_field := []\<rparr>)
      else if c = CHR 0x0D then goto EAT_CRNL_NOP (t\<lparr>tk_field := []\<rparr>)
      else if c = CHR '' '' \<or> c = CHR 0x09 then push c t
      else in_field c t)"

definition tokenize_byte :: "char \<Rightarrow> tokenizer \<Rightarrow> tokenizer" where
  "tokenize_byte c t =
     (case tk_state t of
        START_RECORD \<Rightarrow> start_record c t
      | START_FIELD \<Rightarrow> start_field c t
      | IN_FIELD \<Rightarrow> in_field c t
      | IN_QUOTED_FIELD \<Rightarrow> in_quoted_field c t
      | QUOTE_IN_QUOTED_FIELD \<Rightarrow> quote_in_quoted_field c t
      | EAT_CRNL \<Rightarrow> eat_crnl c t
      | EAT_CRNL_NOP \<Rightarrow> eat_crnl_nop c t
      | WHITESPACE_LINE \<Rightarrow> whitespace_line c t)"

text \<open>At the end of the text an open quoted field is an error; an open line is closed.\<close>

definition handle_eof :: "tokenizer \<Rightarrow> error + string list list" where
  "handle_eof t =
     (case tk_state t of
        START_RECORD \<Rightarrow> Inr (tk_rows t)
      | WHITESPACE_LINE \<Rightarrow> Inr (tk_rows t)
      | EAT_CRNL_NOP \<Rightarrow> Inr (tk_rows t)
      | IN_QUOTED_FIELD \<Rightarrow> Inl ParserError
      | EAT_CRNL \<Rightarrow> Inr (tk_rows (end_line t))
      | _ \<Rightarrow> Inr (tk_rows (end_line (end_field t))))"

definition tokenize :: "string \<Rightarrow> error + string list list" where
  "tokenize bytes =
     (let body = (if take 3 bytes = [CHR 0xEF, CHR 0xBB, CHR 0xBF] then drop 3 bytes else bytes)
      in handle_eof (fold tokenize_byte body
           \<lparr>tk_state = START_RECORD, tk_field = [], tk_line = [], tk_rows = []\<rparr>))"

text \<open>
  With \<^verbatim>\<open>names=['column']\<close> and no header the first record fixes the number of fields.
  A later record with more fields raises \<^verbatim>\<open>ParserError\<close> (``Expected k fields in line
  n, saw m''); one with fewer is filled up with empty fields.  Of \<open>k\<close> fields the last
  is the column \<^verbatim>\<open>column\<close>; the fields before it become the index of the frame, which
  the program never reads.
\<close>

definition column_fields :: "string list list \<Rightarrow> error + string list" where
  "column_fields recs =
     (case recs of
        [] \<Rightarrow> Inr []
      | r # rs \<Rightarrow>
          (let k = max (length r) 1
           in if list_ex (\<lambda>x. k < length x) rs then Inl ParserError
              else Inr (map (\<lambda>x. if length x < k then [] else x ! (k - 1)) recs)))"

text \<open>
  A field that is one of the reader's NA strings reads as null.  The column's type is
  inferred from its values: when every value that is not null reads as a number, or
  every one as a boolean, the column is numeric or boolean; otherwise it is an object
  column of strings and nulls.  A column without rows is an object column.  The number
  syntax is that of pandas' parser: blanks, a sign, digits with an optional point, an
  optional exponent, blanks; or a signed \<^verbatim>\<open>inf\<close> or \<^verbatim>\<open>infinity\<close> in any case.  (pandas
  infers per block of \<open>2^19\<close> rows and keeps integers beyond 64 bits as strings; the
  embedding infers over the whole column and reads every integer as a number.)
\<close>

definition na_values :: "string list" where
  "na_values = [[], ''#N/A'', ''#N/A N/A'', ''#NA'', ''-1.#IND'', ''-1.#QNAN'', ''-NaN'',
     ''-nan'', ''1.#IND'', ''1.#QNAN'', ''<NA>'', ''N/A'', ''NA'', ''NULL'', ''NaN'', ''n/a'',
     ''nan'', ''null'']"

definition is_digit :: "char \<Rightarrow> bool" where
  "is_digit c = (c \<in> set ''0123456789'')"

definition c_space :: "char \<Rightarrow> bool" where
  "c_space c = (c \<in> set [CHR '' '', CHR 0x09, CHR 0x0A, CHR 0x0B, CHR 0x0C, CHR 0x0D])"

definition drop_sign :: "string \<Rightarrow> string" where
  "drop_sign s = (case s of c # r \<Rightarrow> if c = CHR ''-'' \<or> c = CHR ''+'' then r else s | [] \<Rightarrow> [])"

definition drop_exponent :: "string \<Rightarrow> string" where
  "drop_exponent s =
     (case s of
        [] \<Rightarrow> []
      | c # r \<Rightarrow>
          if c = CHR ''e'' \<or> c = CHR ''E'' then
            (let d = drop_sign r
             in if takeWhile is_digit d = [] then s else dropWhile is_digit d)
          else s)"

definition lower :: "char \<Rightarrow> char" where
  "lower c = (if CHR ''A'' \<le> c \<and> c \<le> CHR ''Z'' then char_of (of_char c + (32::nat)) else c)"

definition number_literal :: "string \<Rightarrow> bool" where
  "number_literal s =
     (let s1 = drop_sign (dropWhile c_space s);
          whole = takeWhile is_digit s1;
          s2 = dropWhile is_digit s1;
          frac = (case s2 of c # r \<Rightarrow> if c = CHR ''.'' then takeWhile is_digit r else [] | [] \<Rightarrow> []);
          s3 = (case s2 of c # r \<Rightarrow> if c = CHR ''.'' then dropWhile is_digit r else s2 | [] \<Rightarrow> [])
      in (whole @ frac \<noteq> [] \<and> dropWhile c_space (drop_exponent s3) = [])
         \<or> map lower s \<in> set [''inf'', ''+inf'', ''-inf'', ''infinity'', ''+infinity'', ''-infinity''])"

definition bool_literal :: "string \<Rightarrow> bool" where
  "bool_literal s = (s \<in> set [''True'', ''TRUE'', ''true'', ''False'', ''FALSE'', ''false''])"

datatype column = ObjectColumn "cell list" | OtherColumn

definition infer_column :: "string list \<Rightarrow> column" where
  "infer_column vals =
     (let present = filter (\<lambda>v. v \<notin> set na_values) vals
      in if vals \<noteq> [] \<and> (list_all number_literal present \<or> list_all bool_literal present)
         then OtherColumn
         else ObjectColumn (map (\<lambda>v. if v \<in> set na_values then None else Some v) vals))"

text \<open>
  \<open>pd_read_csv\<close> is \<^verbatim>\<open>pd.read_csv(..., names=['column'])\<close> on the decoded bytes, followed by
  \<^verbatim>\<open>.iloc[:, 0]\<close>: the one column of the frame.
\<close>

definition pd_read_csv :: "string \<Rightarrow> error + column" where
  "pd_read_csv bytes =
     (if \<not> valid_utf8 bytes then Inl UnicodeDecodeError
      else case tokenize bytes of
             Inl e \<Rightarrow> Inl e
           | Inr recs \<Rightarrow>
               (case column_fields recs of
                  Inl e \<Rightarrow> Inl e
                | Inr vals \<Rightarrow> Inr (infer_column vals)))"

subsection \<open>Splitting the lines\<close>

text \<open>
  \<^verbatim>\<open>.str\<close> raises \<^verbatim>\<open>AttributeError\<close> on a column that is not an object column.
  \<^verbatim>\<open>.str.split(sep, 1, expand=True)\<close> splits every string at its first run of
  whitespace and leaves a null as it is.  The frame it builds has as many columns as the
  longest result has parts (a null counts as one part, a column without rows gives no
  column at all); shorter results are filled with nulls, and a null fills its whole row.
  Assigning \<^verbatim>\<open>df.columns\<close> raises \<^verbatim>\<open>ValueError\<close> unless there is one name per column.
\<close>

definition str_accessor :: "column \<Rightarrow> error + cell list" where
  "str_accessor col = (case col of ObjectColumn cells \<Rightarrow> Inr cells | OtherColumn \<Rightarrow> Inl AttributeError)"

definition parts_len :: "string list option \<Rightarrow> nat" where
  "parts_len p = (case p of None \<Rightarrow> 1 | Some ps \<Rightarrow> length ps)"

definition part :: "nat \<Rightarrow> string list option \<Rightarrow> cell" where
  "part j p = (case p of None \<Rightarrow> None | Some ps \<Rightarrow> if j < length ps then Some (ps ! j) else None)"

definition str_split_expand :: "cell list \<Rightarrow> cell list list" where
  "str_split_expand cells =
     (let parts = map (map_option re_split1) cells;
          width = fold max (map parts_len parts) 0
      in map (\<lambda>j. map (part j) parts) [0..<width])"

definition set_columns :: "string list \<Rightarrow> cell list list \<Rightarrow> error + dataframe" where
  "set_columns names cols =
     (if length names \<noteq> length cols then Inl ValueError else Inr (zip names cols))"

definition frame_of_bytes :: "string \<Rightarrow> string list \<Rightarrow> error + dataframe" where
  "frame_of_bytes bytes column_names =
     (case pd_read_csv bytes of
        Inl e \<Rightarrow> Inl e
      | Inr col \<Rightarrow>
          (case str_accessor col of
             Inl e \<Rightarrow> Inl e
           | Inr cells \<Rightarrow> set_columns column_names (str_split_expand cells)))"

text \<open>
  \<^verbatim>\<open>_read_csv(data, column_names)\<close>, lines 121 to 128, with its default separator.  A path
  is the name of a local file.
\<close>

definition read_csv :: "data \<Rightarrow> string list \<Rightarrow> dataframe io" where
  "read_csv d column_names =
     bind (open_gzip d) (\<lambda>bytes. lift (frame_of_bytes bytes column_names))"

section \<open>Source acquisition\<close>

definition download_index :: "string \<Rightarrow> string \<Rightarrow> unit io" where
  "download_index url output_file_name =
     bind (log INFO (''Downloading index file from '' @ quoted url @ '' ...'')) (\<lambda>_.
     bind (requests_get url) (\<lambda>r.
     bind (write_file output_file_name r) (\<lambda>_.
     log INFO ''Downloading finished.'')))"

definition read_index_remote :: "string \<Rightarrow> string list \<Rightarrow> dataframe io" where
  "read_index_remote url column_names =
     bind (log INFO (''Reading index file from '' @ quoted url @ '' ...'')) (\<lambda>_.
     bind (requests_get url) (\<lambda>s.
     bind (read_csv (BytesIO s) column_names) (\<lambda>df.
     bind (log INFO ''Reading finished.'') (\<lambda>_.
     return df))))"

definition read_index_local :: "string \<Rightarrow> string list \<Rightarrow> dataframe io" where
  "read_index_local file_path column_names =
     bind (log INFO (''Reading index file from local file '' @ quoted file_path @ '' ...'')) (\<lambda>_.
     bind (read_csv (Path file_path) column_names) (\<lambda>df.
     bind (log INFO ''Reading finished.'') (\<lambda>_.
     return df)))"

section \<open>Aggregation: \<^verbatim>\<open>count_occurrences\<close>\<close>

text \<open>
  \<^verbatim>\<open>df.pivot_table(index=index, aggfunc='size')\<close> groups the rows by the key column and
  returns the size of each group.  The grouping drops the rows whose key is null, and
  the groups come out sorted by key (\<^verbatim>\<open>groupby\<close> with its defaults \<^verbatim>\<open>sort=True\<close>,
  \<^verbatim>\<open>dropna=True\<close>).  The only call site passes the one-element tuple \<^verbatim>\<open>('package',)\<close>;
  the embedding takes that element.  A key that is no column raises \<^verbatim>\<open>KeyError\<close>.
\<close>

fun dropna :: "cell list \<Rightarrow> string list" where
  "dropna [] = []"
| "dropna (None # cs) = dropna cs"
| "dropna (Some s # cs) = s # dropna cs"

definition groupby_size :: "cell list \<Rightarrow> (string \<times> nat) list" where
  "groupby_size cells =
     (let present = dropna cells
      in map (\<lambda>k. (k, count_list present k)) (sort (remdups present)))"

definition pivot_table_size :: "dataframe \<Rightarrow> string \<Rightarrow> error + (string \<times> nat) list" where
  "pivot_table_size df index =
     (case map_of df index of
        None \<Rightarrow> Inl KeyError
      | Some cells \<Rightarrow> Inr (groupby_size cells))"

text \<open>
  \<^verbatim>\<open>sort_values(ascending=False)\<close>: pandas reverses the values, sorts them ascending and
  reverses the result.  The embedding sorts with a stable sort, so equal counts keep
  the order of their keys; numpy's default sort does not promise an order among equal
  values, and no statement below depends on one.
\<close>

definition sort_values_desc :: "(string \<times> nat) list \<Rightarrow> (string \<times> nat) list" where
  "sort_values_desc s = rev (sort_key snd (rev s))"

text \<open>
  \<^verbatim>\<open>reindex(labels)\<close>: the series with the given labels in the given order; a label
  that the series does not have gets a null value.
\<close>

definition reindex :: "(string \<times> nat) list \<Rightarrow> string list \<Rightarrow> series" where
  "reindex s labels = map (\<lambda>k. (k, map_of s k)) labels"

definition count_occurrences :: "dataframe \<Rightarrow> string \<Rightarrow> series io" where
  "count_occurrences df index =
     bind (log INFO ''Counting index entries occurrences ...'') (\<lambda>_.
     bind (lift (pivot_table_size df index)) (\<lambda>df_pivoted.
     bind (return (reindex df_pivoted (map fst (sort_values_desc df_pivoted)))) (\<lambda>df_pivoted.
     bind (log INFO ''Counting finished.'') (\<lambda>_.
     return df_pivoted))))"

section \<open>Result emission: \<^verbatim>\<open>output_result\<close>\<close>

text \<open>
  \<^verbatim>\<open>to_csv(file_path, index=True, header=False)\<close> writes one record per entry: the label,
  a comma, the value and the line separator.  The csv writer quotes a label that holds a
  comma, a double quote or a line break, doubling the quotes inside.  A count prints as
  a decimal integer; a series with a null value is a float series, whose counts print
  with \<^verbatim>\<open>.0\<close> and whose nulls print as nothing.
\<close>

definition csv_field :: "string \<Rightarrow> string" where
  "csv_field k =
     (if list_ex (\<lambda>c. c \<in> set [CHR '','', CHR 0x22, CHR 0x0A, CHR 0x0D]) k
      then [CHR 0x22] @ concat (map (\<lambda>c. if c = CHR 0x22 then [c, c] else [c]) k) @ [CHR 0x22]
      else k)"

definition fmt_value :: "bool \<Rightarrow> nat option \<Rightarrow> string" where
  "fmt_value as_float v =
     (case v of
        None \<Rightarrow> []
      | Some c \<Rightarrow> if as_float then decimal c @ ''.0'' else decimal c)"

definition csv_record :: "string \<Rightarrow> bool \<Rightarrow> string \<times> nat option \<Rightarrow> string" where
  "csv_record sep as_float e = csv_field (fst e) @ '','' @ fmt_value as_float (snd e) @ sep"

definition to_csv :: "string \<Rightarrow> series \<Rightarrow> string" where
  "to_csv sep s = concat (map (csv_record sep (list_ex (\<lambda>e. snd e = None) s)) s)"

text \<open>
  \<^verbatim>\<open>head(n)\<close>: the first \<open>n\<close> entries; for a negative \<open>n\<close>, all entries but the last
  \<open>-n\<close>.
\<close>

definition head :: "int \<Rightarrow> 'a list \<Rightarrow> 'a list" where
  "head n xs = (if 0 \<le> n then take (nat n) xs else take (length xs - nat (- n)) xs)"

definition rule_line :: string where
  "rule_line = replicate 78 (CHR ''-'')"

text \<open>
  \<open>PrintSeries s\<close> stands for \<^verbatim>\<open>print(s.to_string(header=False))\<close>: pandas' rendering of
  exactly the entries of \<open>s\<close>.
\<close>

definition output_result :: "series option \<Rightarrow> string option \<Rightarrow> int \<Rightarrow> unit io" where
  "output_result df file_path number_of_elements =
     (case df of
        None \<Rightarrow> return ()
      | Some d \<Rightarrow>
          (case file_path of
             Some path \<Rightarrow>
               bind (log INFO (''Saving result to '' @ quoted path @ '' ...'')) (\<lambda>_.
               bind (\<lambda>w. write_file path (to_csv (linesep w) d) w) (\<lambda>_.
               log INFO ''Saving finished.''))
           | None \<Rightarrow>
               bind (print rule_line) (\<lambda>_.
               bind (print (''  Top '' @ str_int number_of_elements
                            @ '' packages with more files associated:'')) (\<lambda>_.
               bind (print rule_line) (\<lambda>_.
               bind (emit (PrintSeries (head number_of_elements d))) (\<lambda>_.
               print rule_line))))))"

section \<open>The command: \<^verbatim>\<open>main\<close>\<close>

text \<open>
  \<open>try_except body handler\<close> runs \<open>body\<close>; when it raises an exception for which
  \<open>handler\<close> has a clause, that clause runs and the exception is gone; any other
  exception goes on to the caller.  The log level is one of the four that the command
  line accepts.
\<close>

definition try_except :: "unit io \<Rightarrow> (error \<Rightarrow> unit io option) \<Rightarrow> unit io" where
  "try_except body handler w =
     (case body w of
        (Inr x, w') \<Rightarrow> (Inr x, w')
      | (Inl e, w') \<Rightarrow>
          (case handler e of
             Some h \<Rightarrow> h w'
           | None \<Rightarrow> (Inl e, w')))"

definition setLevel :: "loglevel \<Rightarrow> unit io" where
  "setLevel l w = (Inr (), w\<lparr>level := l\<rparr>)"

definition now :: "datetime io" where
  "now w = (Inr (clock w), w)"

definition main_handler :: "string \<Rightarrow> error \<Rightarrow> unit io option" where
  "main_handler baseurl e =
     (if e = InvalidURL then Some (log ERROR (''Invalid URL '' @ quoted baseurl))
      else if e = BadGzipFile then Some (log ERROR ''Could not read index file'')
      else if e = KeyboardInterrupt then Some (log INFO ''Canceled by user.'')
      else None)"

definition main_body :: "string \<Rightarrow> string \<Rightarrow> bool \<Rightarrow> string option \<Rightarrow> int \<Rightarrow> unit io" where
  "main_body index_file_url index_file_name download output number_of_elements =
     bind
       (if download then
          bind now (\<lambda>t.
          let timestamp = strftime t;
              download_file_name = split_on (CHR ''.'') index_file_name;
              download_file_name = list_insert (- 1) timestamp download_file_name;
              download_file_name = join ''.'' download_file_name
          in bind (download_index index_file_url download_file_name) (\<lambda>_.
             read_index_local download_file_name [''filename'', ''package'']))
        else read_index_remote index_file_url [''filename'', ''package''])
       (\<lambda>df.
     bind (count_occurrences df ''package'') (\<lambda>df_result.
     output_result (Some df_result) output number_of_elements))"

definition main :: "string \<Rightarrow> string \<Rightarrow> bool \<Rightarrow> loglevel \<Rightarrow> string option \<Rightarrow> int \<Rightarrow> unit io" where
  "main baseurl architecture download log_level output number_of_elements =
     bind (setLevel log_level) (\<lambda>_.
     bind (print (''Debian Index Statistics Tool '' @ quoted ''debindex.py'')) (\<lambda>_.
     let index_file_name = ''Contents-'' @ architecture @ ''.gz'';
         baseurl = strip baseurl;
         index_file_url = rstrip_char (CHR ''/'') baseurl @ ''/'' @ index_file_name
     in bind (try_except
                (main_body index_file_url index_file_name download output number_of_elements)
                (main_handler baseurl)) (\<lambda>_.
        print ''Finished.'')))"

section \<open>Vocabulary of the properties\<close>

text \<open>
  A comparison with a null count is false, as a comparison with \<open>NaN\<close>.  \<open>adjacent_desc\<close>
  says that each entry's count is at least the next entry's.  \<open>sum_counts\<close> is the sum of
  the counts that are present.  \<open>as_series\<close> is a ranking whose counts are all present.
\<close>

fun count_ge :: "nat option \<Rightarrow> nat option \<Rightarrow> bool" where
  "count_ge (Some a) (Some b) = (b \<le> a)"
| "count_ge _ _ = False"

fun adjacent_desc :: "series \<Rightarrow> bool" where
  "adjacent_desc (a # b # r) = (count_ge (snd a) (snd b) \<and> adjacent_desc (b # r))"
| "adjacent_desc _ = True"

definition sum_counts :: "series \<Rightarrow> nat" where
  "sum_counts r = sum_list (map (\<lambda>e. case snd e of None \<Rightarrow> 0 | Some c \<Rightarrow> c) r)"

definition as_series :: "(string \<times> nat) list \<Rightarrow> series" where
  "as_series s = map (\<lambda>e. (fst e, Some (snd e))) s"

text \<open>
  An environment for the examples: no network, no files, a fixed clock, and a zlib
  that accepts nothing.
\<close>

definition offline :: world where
  "offline =
     \<lparr>http = (\<lambda>url. Inl RequestException), files = (\<lambda>name. None), writable = (\<lambda>name. True),
      clock = \<lparr>year = 2024, month = 1, day = 2, hour = 3, minute = 4, second = 5\<rparr>,
      linesep = [CHR 0x0A], inflate = (\<lambda>bs. BadData), crc32 = (\<lambda>bs. 0),
      level = INFO, trace = []\<rparr>"

section \<open>Running effects\<close>

lemma bind_return: "bind (return x) f w = f x w"
  by (simp add: bind_def return_def)

lemma bind_raise: "bind (raise e) f w = (Inl e, w)"
  by (simp add: bind_def raise_def)

lemma bind_lift_Inr: "bind (lift (Inr x)) f w = f x w"
  by (simp add: bind_def lift_def)

lemma bind_lift_Inl: "bind (lift (Inl e)) f w = (Inl e, w)"
  by (simp add: bind_def lift_def)

lemma bind_emit: "bind (emit ev) f w = f () (w\<lparr>trace := trace w @ [ev]\<rparr>)"
  by (simp add: bind_def emit_def)

lemmas bind_simps = bind_return bind_raise bind_lift_Inr bind_lift_Inl bind_emit

section \<open>The ranking\<close>

lemma count_occurrences_result:
  "fst (count_occurrences df index w) =
     (case pivot_table_size df index of
        Inl e \<Rightarrow> Inl e
      | Inr p \<Rightarrow> Inr (reindex p (map fst (sort_values_desc p))))"
  by (cases "pivot_table_size df index")
     (simp_all add: count_occurrences_def log_def bind_simps return_def)

lemma distinct_groupby_size: "distinct (map fst (groupby_size cells))"
  by (simp add: groupby_size_def Let_def comp_def)

lemma distinct_groupby: "distinct (groupby_size cells)"
  using distinct_groupby_size [of cells] by (rule distinct_map [THEN iffD1, THEN conjunct1])

lemma set_sort_values_desc: "set (sort_values_desc p) = set p"
  by (simp add: sort_values_desc_def)

lemma distinct_sort_values_desc: "distinct (sort_values_desc p) = distinct p"
  by (simp add: sort_values_desc_def)

text \<open>Every label of the sorted series is a label of the series: no null arises.\<close>

lemma reindex_sorted:
  assumes "distinct (map fst p)"
  shows "reindex p (map fst (sort_values_desc p)) = as_series (sort_values_desc p)"
proof -
  have "map_of p (fst e) = Some (snd e)" if "e \<in> set (sort_values_desc p)" for e
    using that assms by (simp add: set_sort_values_desc)
  then show ?thesis by (simp add: reindex_def as_series_def)
qed

lemma sorted_desc_values: "sorted_wrt (\<lambda>a b. snd b \<le> snd a) (sort_values_desc p)"
proof -
  have "sorted (map snd (sort_key snd (rev p)))" by simp
  then have "sorted_wrt (\<lambda>a b. snd a \<le> snd b) (sort_key snd (rev p))"
    by (simp add: sorted_wrt_map)
  then show ?thesis
    by (simp add: sort_values_desc_def sorted_wrt_rev)
qed

lemma adjacent_desc_as_series:
  "sorted_wrt (\<lambda>a b. snd b \<le> snd a) xs \<Longrightarrow> adjacent_desc (as_series xs)"
  by (induction xs rule: induct_list012) (auto simp: as_series_def)

text \<open>What \<open>count_occurrences\<close> returns: the groups of the key column, ranked.\<close>

lemma count_occurrences_ranked:
  assumes "fst (count_occurrences df index w) = Inr r"
  obtains cells where "map_of df index = Some cells"
    and "r = as_series (sort_values_desc (groupby_size cells))"
  using assms
  by (auto simp: count_occurrences_result pivot_table_size_def reindex_sorted
      distinct_groupby_size split: option.splits)

text \<open>
  Claim C2.  Whenever counting and ranking returns a result, the result is sorted by
  count in descending order: for every two adjacent entries the count of the first is
  at least the count of the second.
\<close>

theorem ranked_sorted_descending:
  "fst (count_occurrences df index w) = Inr r \<Longrightarrow> adjacent_desc r"
  by (erule count_occurrences_ranked) (simp add: adjacent_desc_as_series sorted_desc_values)

theorem ranked_sorted_descending_witness:
  "fst (count_occurrences
          [(''filename'', [Some ''usr/bin/foo'', Some ''usr/bin/bar'', Some ''usr/lib/baz'']),
           (''package'', [Some ''lib-pkg'', Some ''util-pkg'', Some ''util-pkg''])]
          ''package'' offline)
     = Inr [(''util-pkg'', Some 2), (''lib-pkg'', Some 1)]
   \<and> adjacent_desc [(''util-pkg'', Some 2), (''lib-pkg'', Some 1)]"
proof -
  have run: "fst (count_occurrences
          [(''filename'', [Some ''usr/bin/foo'', Some ''usr/bin/bar'', Some ''usr/lib/baz'']),
           (''package'', [Some ''lib-pkg'', Some ''util-pkg'', Some ''util-pkg''])]
          ''package'' offline)
     = Inr [(''util-pkg'', Some 2), (''lib-pkg'', Some 1)]"
    unfolding count_occurrences_result by code_simp
  from ranked_sorted_descending [OF run] run show ?thesis by simp
qed

lemma sum_counts_as_series: "sum_counts (as_series s) = sum_list (map snd s)"
  by (simp add: sum_counts_def as_series_def comp_def)

lemma sum_list_sort_values_desc:
  assumes "distinct p"
  shows "sum_list (map snd (sort_values_desc p)) = sum_list (map snd p)"
proof -
  have "sum_list (map snd (sort_values_desc p)) = sum snd (set (sort_values_desc p))"
    using assms by (simp add: sum_list_distinct_conv_sum_set distinct_sort_values_desc)
  also have "\<dots> = sum_list (map snd p)"
    using assms by (simp add: sum_list_distinct_conv_sum_set set_sort_values_desc)
  finally show ?thesis .
qed

lemma sum_groupby_size: "sum_list (map snd (groupby_size cells)) = length (dropna cells)"
proof -
  have "sum_list (map snd (groupby_size cells))
        = sum_list (map (count_list (dropna cells)) (sort (remdups (dropna cells))))"
    by (simp add: groupby_size_def Let_def comp_def)
  also have "\<dots> = sum (count_list (dropna cells)) (set (dropna cells))"
    by (simp add: sum_list_distinct_conv_sum_set)
  also have "\<dots> = length (dropna cells)"
    by (simp add: sum_count_set)
  finally show ?thesis .
qed

lemma length_dropna: "length (dropna cells) = length (filter (\<lambda>c. c \<noteq> None) cells)"
  by (induction cells rule: dropna.induct) auto

text \<open>
  Claim C3, as amended.  The sum of all counts of the result equals the number of
  records whose package field is present (not null).  A record whose package field is
  the empty string is counted, under the empty key; a record without a package field
  adds to no count.
\<close>

theorem count_conservation:
  assumes "map_of df index = Some cells"
  shows "\<exists>r. fst (count_occurrences df index w) = Inr r
             \<and> sum_counts r = length (filter (\<lambda>c. c \<noteq> None) cells)"
  using assms
  by (simp add: count_occurrences_result pivot_table_size_def reindex_sorted
      distinct_groupby_size sum_counts_as_series sum_list_sort_values_desc distinct_groupby
      sum_groupby_size length_dropna)

theorem count_conservation_witness:
  "\<exists>r. fst (count_occurrences
          [(''filename'', [Some ''a'', Some ''b'', Some ''c'', Some ''d'']),
           (''package'', [Some ''util-pkg'', None, Some ''util-pkg'', Some ''lib-pkg''])]
          ''package'' offline) = Inr r
       \<and> sum_counts r = 3"
  using count_conservation [of
          "[(''filename'', [Some ''a'', Some ''b'', Some ''c'', Some ''d'']),
            (''package'', [Some ''util-pkg'', None, Some ''util-pkg'', Some ''lib-pkg''])]"
          "''package''" "[Some ''util-pkg'', None, Some ''util-pkg'', Some ''lib-pkg'']" offline]
  by (simp add: eval_nat_numeral)

text \<open>
  The claim as stated fails on the line \<^verbatim>\<open>usr/bin/foo \<close> (a path and a blank): the split
  leaves the empty string as the package, the one record is counted under the empty
  key, and the sum of the counts is 1 where no record has a non-empty package.
\<close>

theorem empty_package_counterexample:
  "frame_of_bytes ''usr/bin/foo \<newline>'' [''filename'', ''package'']
     = Inr [(''filename'', [Some ''usr/bin/foo'']), (''package'', [Some []])]
   \<and> fst (count_occurrences [(''filename'', [Some ''usr/bin/foo'']), (''package'', [Some []])]
            ''package'' offline) = Inr [([], Some 1)]
   \<and> sum_counts [([], Some 1)]
       \<noteq> length (filter (\<lambda>c. c \<noteq> None \<and> c \<noteq> Some []) [Some ([] :: string)])"
proof -
  have "frame_of_bytes ''usr/bin/foo \<newline>'' [''filename'', ''package'']
     = Inr [(''filename'', [Some ''usr/bin/foo'']), (''package'', [Some []])]"
    by code_simp
  moreover have "fst (count_occurrences [(''filename'', [Some ''usr/bin/foo'']), (''package'', [Some []])]
            ''package'' offline) = Inr [([], Some 1)]"
    unfolding count_occurrences_result by code_simp
  ultimately show ?thesis by (simp add: sum_counts_def)
qed

end
